theory Spec2Isabelle
  imports Complex_Main
begin

section \<open>Real-time analyzer: data model\<close>

text \<open>
  The model of \<^verbatim>\<open>services/real_time_analyzer.py\<close>. Python floats are modelled as
  real numbers, \<^verbatim>\<open>datetime\<close> values as integers counting microseconds, and a
  \<^verbatim>\<open>timedelta\<close> as the corresponding number of microseconds. The clock
  (\<^verbatim>\<open>datetime.now()\<close>) is read once per call and passed as the parameter \<open>now\<close>.
  Signal types and source tags stay the strings the code compares them with.
\<close>

record MarketSignal =
  timestamp :: int
  token :: string
  signal_type :: string
  strength :: real
  source :: string
  data :: "(string \<times> real) list"

record SentimentData =
  s_timestamp :: int
  s_token :: string
  sentiment_score :: real
  confidence :: real
  s_source :: string
  text_sample :: string

text \<open>The dictionary built by the three \<^verbatim>\<open>_fetch_from_*\<close> functions.\<close>

record price_data =
  p_token :: string
  price :: real
  change_24h :: real
  volume_24h :: real
  p_timestamp :: int
  p_source :: string

text \<open>The mutable attributes of \<^verbatim>\<open>RealTimeAnalyzer\<close> that the signal pipeline uses.\<close>

record analyzer =
  price_data_cache :: "string \<rightharpoonup> price_data"
  sentiment_cache :: "string \<rightharpoonup> SentimentData"
  market_signals :: "MarketSignal list"

definition hours :: "int \<Rightarrow> int" where
  "hours h = h * 3600000000"

section \<open>Price-movement analysis\<close>

text \<open>
  \<^verbatim>\<open>_analyze_price_movement\<close>: a strong-move signal when the 24h change exceeds 5 percent
  in magnitude, a volume-spike signal when the volume is more than twice the cached one,
  then the store is extended and filtered to the last 24 hours.
\<close>

definition price_movement_signals :: "int \<Rightarrow> string \<Rightarrow> price_data \<Rightarrow> MarketSignal list" where
  "price_movement_signals now tok pd =
     (if \<bar>change_24h pd\<bar> > 5
      then [\<lparr>timestamp = now, token = tok,
             signal_type = (if change_24h pd > 0 then ''bullish'' else ''bearish''),
             strength = min 1 (\<bar>change_24h pd\<bar> / 20),
             source = ''price_movement'',
             data = [(''change_24h'', change_24h pd), (''volume_24h'', volume_24h pd)]\<rparr>]
      else [])"

definition volume_spike_signals ::
  "int \<Rightarrow> string \<Rightarrow> price_data \<Rightarrow> (string \<rightharpoonup> price_data) \<Rightarrow> MarketSignal list" where
  "volume_spike_signals now tok pd cache =
     (case cache tok of
        None \<Rightarrow> []
      | Some prev_data \<Rightarrow>
          (let prev_volume = volume_24h prev_data in
           if prev_volume > 0 \<and> volume_24h pd > prev_volume * 2
           then [\<lparr>timestamp = now, token = tok, signal_type = ''bullish'',
                  strength = 6 / 10, source = ''volume_spike'',
                  data = [(''volume_increase'', volume_24h pd / prev_volume)]\<rparr>]
           else []))"

definition analyze_price_movement :: "int \<Rightarrow> string \<Rightarrow> price_data \<Rightarrow> analyzer \<Rightarrow> analyzer" where
  "analyze_price_movement now tok pd st =
     (let signals = price_movement_signals now tok pd
                    @ volume_spike_signals now tok pd (price_data_cache st);
          extended = market_signals st @ signals;
          cutoff_time = now - hours 24
      in st\<lparr>market_signals := filter (\<lambda>signal. timestamp signal > cutoff_time) extended\<rparr>)"

text \<open>
  One iteration of the loop body of \<^verbatim>\<open>_price_data_collector\<close> for one token. The
  network fetch is outside the model: its result is the parameter \<open>fetched\<close>
  (\<open>None\<close> when every source failed). The cache entry is written first, the analysis
  runs afterwards on the updated analyzer.
\<close>

definition price_data_collector_token ::
  "int \<Rightarrow> string \<Rightarrow> price_data option \<Rightarrow> analyzer \<Rightarrow> analyzer" where
  "price_data_collector_token now tok fetched st =
     (case fetched of
        None \<Rightarrow> st
      | Some pd \<Rightarrow>
          analyze_price_movement now tok pd
            (st\<lparr>price_data_cache := (price_data_cache st)(tok \<mapsto> pd)\<rparr>))"

definition price_data_collector_cycle ::
  "int \<Rightarrow> (string \<Rightarrow> price_data option) \<Rightarrow> string list \<Rightarrow> analyzer \<Rightarrow> analyzer" where
  "price_data_collector_cycle now fetch toks st =
     foldl (\<lambda>s tok. price_data_collector_token now tok (fetch tok) s) st toks"

section \<open>Composite signal fusion\<close>

text \<open>
  \<^verbatim>\<open>_generate_composite_signal\<close>. A dataclass instance is always truthy, so
  \<^verbatim>\<open>if news_sentiment:\<close> tests presence of the cache entry only.
\<close>

definition recent_signals :: "int \<Rightarrow> string \<Rightarrow> analyzer \<Rightarrow> MarketSignal list" where
  "recent_signals now tok st =
     filter (\<lambda>signal. token signal = tok \<and> timestamp signal > now - hours 1)
            (market_signals st)"

definition bullish_strength :: "MarketSignal list \<Rightarrow> real" where
  "bullish_strength sigs =
     sum_list (map strength (filter (\<lambda>signal. signal_type signal = ''bullish'') sigs))"

definition bearish_strength :: "MarketSignal list \<Rightarrow> real" where
  "bearish_strength sigs =
     sum_list (map strength (filter (\<lambda>signal. signal_type signal = ''bearish'') sigs))"

definition sentiment_component :: "string \<Rightarrow> analyzer \<Rightarrow> real" where
  "sentiment_component tok st =
     (let s0 = 0;
          s1 = (case sentiment_cache st (tok @ ''_news'') of
                  None \<Rightarrow> s0
                | Some news \<Rightarrow> s0 + sentiment_score news * (6 / 10));
          s2 = (case sentiment_cache st (tok @ ''_social'') of
                  None \<Rightarrow> s1
                | Some social \<Rightarrow> s1 + sentiment_score social * (4 / 10))
      in s2)"

definition generate_composite_signal :: "int \<Rightarrow> string \<Rightarrow> analyzer \<Rightarrow> MarketSignal option" where
  "generate_composite_signal now tok st =
     (let recent = recent_signals now tok st in
      if recent = [] then None
      else
        let sentiment = sentiment_component tok st;
            net_technical = bullish_strength recent - bearish_strength recent;
            combined_score = net_technical + sentiment;
            ty = (if combined_score > 3 / 10 then ''bullish''
                  else if combined_score < - (3 / 10) then ''bearish''
                  else ''neutral'');
            str = (if combined_score > 3 / 10 then min 1 combined_score
                   else if combined_score < - (3 / 10) then min 1 \<bar>combined_score\<bar>
                   else 5 / 10)
        in Some \<lparr>timestamp = now, token = tok, signal_type = ty, strength = str,
                 source = ''composite'',
                 data = [(''technical_score'', net_technical),
                         (''sentiment_score'', sentiment),
                         (''combined_score'', combined_score),
                         (''signal_count'', real (length recent))]\<rparr>)"

text \<open>One iteration of the loop body of \<^verbatim>\<open>_market_signal_generator\<close>, and the loop
  over the supported tokens.\<close>

definition market_signal_generator_token :: "int \<Rightarrow> string \<Rightarrow> analyzer \<Rightarrow> analyzer" where
  "market_signal_generator_token now tok st =
     (case generate_composite_signal now tok st of
        None \<Rightarrow> st
      | Some composite_signal \<Rightarrow>
          st\<lparr>market_signals := market_signals st @ [composite_signal]\<rparr>)"

definition market_signal_generator_cycle :: "int \<Rightarrow> string list \<Rightarrow> analyzer \<Rightarrow> analyzer" where
  "market_signal_generator_cycle now toks st =
     foldl (\<lambda>s tok. market_signal_generator_token now tok s) st toks"

text \<open>The value stored under a key of a signal's \<^verbatim>\<open>data\<close> dictionary.\<close>

definition data_value :: "MarketSignal \<Rightarrow> string \<Rightarrow> real option" where
  "data_value signal k = map_of (data signal) k"

section \<open>Technical signals\<close>

text \<open>
  A cell of a float column is a number or NaN; NaN is \<open>None\<close>. Every comparison
  with NaN is false, as in numpy and pandas.
\<close>

type_synonym npfloat = "real option"

definition nan_lt :: "npfloat \<Rightarrow> npfloat \<Rightarrow> bool" where
  "nan_lt a b = (case a of None \<Rightarrow> False
                 | Some x \<Rightarrow> (case b of None \<Rightarrow> False | Some y \<Rightarrow> x < y))"

definition nan_le :: "npfloat \<Rightarrow> npfloat \<Rightarrow> bool" where
  "nan_le a b = (case a of None \<Rightarrow> False
                 | Some x \<Rightarrow> (case b of None \<Rightarrow> False | Some y \<Rightarrow> x \<le> y))"

definition nan_gt :: "npfloat \<Rightarrow> npfloat \<Rightarrow> bool" where
  "nan_gt a b = nan_lt b a"

definition nan_ge :: "npfloat \<Rightarrow> npfloat \<Rightarrow> bool" where
  "nan_ge a b = nan_le b a"

text \<open>A row of the indicator frame (\<^verbatim>\<open>iloc[i]\<close>): column name to cell.
  \<^verbatim>\<open>row.get(name, default)\<close> gives the default only when the column is absent.\<close>

type_synonym row = "string \<rightharpoonup> npfloat"

definition row_get :: "row \<Rightarrow> string \<Rightarrow> real \<Rightarrow> npfloat" where
  "row_get r name dflt = (case r name of None \<Rightarrow> Some dflt | Some v \<Rightarrow> v)"

text \<open>The number a signal's \<^verbatim>\<open>data\<close> dictionary records for a cell; the cells recorded
  below have passed a comparison, so they are numbers.\<close>

definition cell_value :: "npfloat \<Rightarrow> real" where
  "cell_value v = (case v of None \<Rightarrow> 0 | Some x \<Rightarrow> x)"

text \<open>
  \<^verbatim>\<open>_generate_technical_signals\<close>, from the rows of the frame that
  \<^verbatim>\<open>add_all_indicators\<close> returned. Fewer than 20 rows give no signal; otherwise the
  last row and the one before it are inspected.
\<close>

definition rsi_signals :: "int \<Rightarrow> string \<Rightarrow> row \<Rightarrow> MarketSignal list" where
  "rsi_signals now tok latest =
     (let rsi = row_get latest ''rsi'' 50 in
      if nan_lt rsi (Some 30)
      then [\<lparr>timestamp = now, token = tok, signal_type = ''bullish'', strength = 7 / 10,
             source = ''rsi_oversold'', data = [(''rsi'', cell_value rsi)]\<rparr>]
      else if nan_gt rsi (Some 70)
      then [\<lparr>timestamp = now, token = tok, signal_type = ''bearish'', strength = 7 / 10,
             source = ''rsi_overbought'', data = [(''rsi'', cell_value rsi)]\<rparr>]
      else [])"

definition macd_signals :: "int \<Rightarrow> string \<Rightarrow> row \<Rightarrow> row \<Rightarrow> MarketSignal list" where
  "macd_signals now tok latest prev =
     (let macd = row_get latest ''macd'' 0;
          macd_signal = row_get latest ''macd_signal'' 0;
          prev_macd = row_get prev ''macd'' 0;
          prev_macd_signal = row_get prev ''macd_signal'' 0
      in
      if nan_gt macd macd_signal \<and> nan_le prev_macd prev_macd_signal
      then [\<lparr>timestamp = now, token = tok, signal_type = ''bullish'', strength = 6 / 10,
             source = ''macd_bullish_crossover'',
             data = [(''macd'', cell_value macd), (''signal'', cell_value macd_signal)]\<rparr>]
      else if nan_lt macd macd_signal \<and> nan_ge prev_macd prev_macd_signal
      then [\<lparr>timestamp = now, token = tok, signal_type = ''bearish'', strength = 6 / 10,
             source = ''macd_bearish_crossover'',
             data = [(''macd'', cell_value macd), (''signal'', cell_value macd_signal)]\<rparr>]
      else [])"

definition ma_signals :: "int \<Rightarrow> string \<Rightarrow> row \<Rightarrow> MarketSignal list" where
  "ma_signals now tok latest =
     (let price = row_get latest ''close'' 0;
          sma_20 = row_get latest ''sma_20'' 0;
          sma_50 = row_get latest ''sma_50'' 0
      in
      if nan_gt price sma_20 \<and> nan_gt sma_20 sma_50
      then [\<lparr>timestamp = now, token = tok, signal_type = ''bullish'', strength = 5 / 10,
             source = ''ma_bullish_alignment'',
             data = [(''price'', cell_value price), (''sma_20'', cell_value sma_20),
                     (''sma_50'', cell_value sma_50)]\<rparr>]
      else if nan_lt price sma_20 \<and> nan_lt sma_20 sma_50
      then [\<lparr>timestamp = now, token = tok, signal_type = ''bearish'', strength = 5 / 10,
             source = ''ma_bearish_alignment'',
             data = [(''price'', cell_value price), (''sma_20'', cell_value sma_20),
                     (''sma_50'', cell_value sma_50)]\<rparr>]
      else [])"

definition generate_technical_signals :: "int \<Rightarrow> string \<Rightarrow> row list \<Rightarrow> MarketSignal list" where
  "generate_technical_signals now tok rows =
     (if length rows < 20 then []
      else
        let latest = rows ! (length rows - 1);
            prev = rows ! (length rows - 2)
        in rsi_signals now tok latest @ macd_signals now tok latest prev
           @ ma_signals now tok latest)"

text \<open>
  One iteration of the loop body of \<^verbatim>\<open>_technical_analysis_processor\<close> for one token.
  The history query is outside the model: \<open>history\<close> is \<open>None\<close> when it returned
  nothing, else the rows of the frame with its indicator columns. The signals found are
  appended to the store; nothing is removed here.
\<close>

definition technical_analysis_processor_token ::
  "int \<Rightarrow> string \<Rightarrow> row list option \<Rightarrow> analyzer \<Rightarrow> analyzer" where
  "technical_analysis_processor_token now tok history st =
     (case history of
        None \<Rightarrow> st
      | Some rows \<Rightarrow>
          if length rows > 50
          then (let technical_signals = generate_technical_signals now tok rows in
                if technical_signals = [] then st
                else st\<lparr>market_signals := market_signals st @ technical_signals\<rparr>)
          else st)"

text \<open>
  The reading of the fusion contract that counts raw signals only: the net technical
  score summed over the signals of the asset in the trailing hour whose source tag is not
  \<^verbatim>\<open>composite\<close>. This definition follows the specification's words; it is compared
  with what \<open>generate_composite_signal\<close> records.
\<close>

definition spec_raw_net_technical :: "int \<Rightarrow> string \<Rightarrow> analyzer \<Rightarrow> real" where
  "spec_raw_net_technical now tok st =
     (let raw = filter (\<lambda>signal. source signal \<noteq> ''composite'') (recent_signals now tok st)
      in bullish_strength raw - bearish_strength raw)"

section \<open>Indicator engine: arrays and elementwise operations\<close>

text \<open>
  The model of \<^verbatim>\<open>utils/technical_indicators.py\<close>. A float array or float column is a
  list of cells; \<open>None\<close> is a cell that holds no finite number: NaN, or the infinity or
  NaN that numpy stores (with a warning, without raising) as the result of a division by
  zero. Arithmetic on an undefined cell is undefined; rounding is not modelled. The
  arrays passed to one function are the columns of one data frame and have its length.
\<close>

type_synonym floats = "npfloat list"

definition np_add :: "npfloat \<Rightarrow> npfloat \<Rightarrow> npfloat" where
  "np_add a b = (case a of None \<Rightarrow> None
                 | Some x \<Rightarrow> (case b of None \<Rightarrow> None | Some y \<Rightarrow> Some (x + y)))"

definition np_sub :: "npfloat \<Rightarrow> npfloat \<Rightarrow> npfloat" where
  "np_sub a b = (case a of None \<Rightarrow> None
                 | Some x \<Rightarrow> (case b of None \<Rightarrow> None | Some y \<Rightarrow> Some (x - y)))"

definition np_mul :: "npfloat \<Rightarrow> npfloat \<Rightarrow> npfloat" where
  "np_mul a b = (case a of None \<Rightarrow> None
                 | Some x \<Rightarrow> (case b of None \<Rightarrow> None | Some y \<Rightarrow> Some (x * y)))"

definition np_div :: "npfloat \<Rightarrow> npfloat \<Rightarrow> npfloat" where
  "np_div a b = (case a of None \<Rightarrow> None
                 | Some x \<Rightarrow> (case b of None \<Rightarrow> None
                             | Some y \<Rightarrow> if y = 0 then None else Some (x / y)))"

definition nan_eq :: "npfloat \<Rightarrow> npfloat \<Rightarrow> bool" where
  "nan_eq a b = (case a of None \<Rightarrow> False
                 | Some x \<Rightarrow> (case b of None \<Rightarrow> False | Some y \<Rightarrow> x = y))"

definition arr_add :: "floats \<Rightarrow> floats \<Rightarrow> floats" where
  "arr_add a b = map2 np_add a b"

definition arr_sub :: "floats \<Rightarrow> floats \<Rightarrow> floats" where
  "arr_sub a b = map2 np_sub a b"

definition arr_mul :: "floats \<Rightarrow> floats \<Rightarrow> floats" where
  "arr_mul a b = map2 np_mul a b"

definition arr_div :: "floats \<Rightarrow> floats \<Rightarrow> floats" where
  "arr_div a b = map2 np_div a b"

text \<open>An array combined with a Python scalar.\<close>

definition arr_scale :: "real \<Rightarrow> floats \<Rightarrow> floats" where
  "arr_scale k a = map (np_mul (Some k)) a"

definition arr_div_scalar :: "floats \<Rightarrow> real \<Rightarrow> floats" where
  "arr_div_scalar a k = map (\<lambda>x. np_div x (Some k)) a"





definition arr_eq :: "floats \<Rightarrow> floats \<Rightarrow> bool list" where
  "arr_eq a b = map2 nan_eq a b"


text \<open>\<^verbatim>\<open>np.where(cond, k, a)\<close> with a scalar \<open>k\<close>.\<close>

definition np_where :: "bool list \<Rightarrow> real \<Rightarrow> floats \<Rightarrow> floats" where
  "np_where cond k a = map2 (\<lambda>c x. if c then Some k else x) cond a"


text \<open>\<^verbatim>\<open>np.roll(a, 1)\<close>: every cell moves one place up the index, the last cell wraps
  round to index 0.\<close>

definition np_roll1 :: "floats \<Rightarrow> floats" where
  "np_roll1 xs = (if xs = [] then [] else last xs # butlast xs)"

text \<open>
  \<^verbatim>\<open>Series.rolling(w)\<close> followed by an aggregation, for a window \<open>w\<close> of at least one
  row: row \<open>i\<close> aggregates the cells \<open>i - w + 1 .. i\<close>, and is NaN when fewer than \<open>w\<close>
  rows are available or one of these cells is NaN.
\<close>

definition rolling :: "nat \<Rightarrow> (real list \<Rightarrow> real) \<Rightarrow> floats \<Rightarrow> floats" where
  "rolling w agg xs =
     map (\<lambda>i. if i + 1 < w then None
               else map_option agg (those (take w (drop (i + 1 - w) xs))))
         [0 ..< length xs]"

definition rolling_sum :: "nat \<Rightarrow> floats \<Rightarrow> floats" where
  "rolling_sum w xs = rolling w sum_list xs"



section \<open>Indicator engine: MACD crossovers\<close>



section \<open>Indicator engine: Chaikin Money Flow\<close>

text \<open>
  \<^verbatim>\<open>_chaikin_money_flow\<close>. The money-flow volume is computed for every bar, then
  replaced by 0 on the bars with \<^verbatim>\<open>high == low\<close>; the result is the ratio of the two
  rolling sums.
\<close>

definition money_flow_volume :: "floats \<Rightarrow> floats \<Rightarrow> floats \<Rightarrow> floats \<Rightarrow> floats" where
  "money_flow_volume high low close volume =
     (let mfv = arr_mul (arr_div (arr_sub (arr_sub close low) (arr_sub high close))
                                 (arr_sub high low))
                        volume
      in np_where (arr_eq high low) 0 mfv)"

definition chaikin_money_flow :: "floats \<Rightarrow> floats \<Rightarrow> floats \<Rightarrow> floats \<Rightarrow> nat \<Rightarrow> floats" where
  "chaikin_money_flow high low close volume period =
     arr_div (rolling_sum period (money_flow_volume high low close volume))
             (rolling_sum period volume)"

section \<open>Indicator engine: pivot points\<close>

text \<open>\<^verbatim>\<open>_calculate_pivot_points\<close>: the dictionary of the seven level arrays, in the
  order of the returned dictionary.\<close>

definition calculate_pivot_points :: "floats \<Rightarrow> floats \<Rightarrow> floats \<Rightarrow> (string \<times> floats) list" where
  "calculate_pivot_points high low close =
     (let prev_high = np_roll1 high;
          prev_low = np_roll1 low;
          prev_close = np_roll1 close;
          pivot = arr_div_scalar (arr_add (arr_add prev_high prev_low) prev_close) 3;
          r1 = arr_sub (arr_scale 2 pivot) prev_low;
          s1 = arr_sub (arr_scale 2 pivot) prev_high;
          r2 = arr_add pivot (arr_sub prev_high prev_low);
          s2 = arr_sub pivot (arr_sub prev_high prev_low);
          r3 = arr_add prev_high (arr_scale 2 (arr_sub pivot prev_low));
          s3 = arr_sub prev_low (arr_scale 2 (arr_sub prev_high pivot))
      in [(''pivot'', pivot), (''resistance_1'', r1), (''support_1'', s1),
          (''resistance_2'', r2), (''support_2'', s2),
          (''resistance_3'', r3), (''support_3'', s3)])"

section \<open>News sentiment\<close>

text \<open>
  \<^verbatim>\<open>_analyze_news_sentiment\<close>. An article is the pair of its title and description.
  The scorer \<^verbatim>\<open>_get_sentiment_score\<close> wraps an external language model; it is the
  parameter \<open>score\<close>, which gives no score (\<open>None\<close>) where the scorer fails. Strings are
  byte strings here, so lengths agree with Python's on ASCII text.
\<close>

record article =
  title :: string
  description :: string

definition is_space :: "char \<Rightarrow> bool" where
  "is_space c = (c \<in> set [CHR '' '', CHR 0x09, CHR 0x0A, CHR 0x0B, CHR 0x0C, CHR 0x0D,
                           CHR 0x1C, CHR 0x1D, CHR 0x1E, CHR 0x1F])"

definition strip :: "string \<Rightarrow> string" where
  "strip s = rev (dropWhile is_space (rev (dropWhile is_space s)))"

definition article_text :: "article \<Rightarrow> string" where
  "article_text a = title a @ '' '' @ description a"

text \<open>The loop over the articles, with its two accumulators.\<close>

fun collect_sentiments ::
  "(string \<Rightarrow> real option) \<Rightarrow> article list \<Rightarrow> real list \<Rightarrow> string list
     \<Rightarrow> real list \<times> string list" where
  "collect_sentiments score [] sentiments text_samples = (sentiments, text_samples)"
| "collect_sentiments score (a # rest) sentiments text_samples =
     (let text = article_text a in
      if length (strip text) < 10
      then collect_sentiments score rest sentiments text_samples
      else (case score text of
              None \<Rightarrow> collect_sentiments score rest sentiments text_samples
            | Some sentiment \<Rightarrow>
                collect_sentiments score rest (sentiments @ [sentiment])
                  (text_samples @ [take 100 text])))"

text \<open>\<^verbatim>\<open>np.mean\<close> and \<^verbatim>\<open>np.std\<close> (the population standard deviation) of a non-empty
  list.\<close>

definition np_mean :: "real list \<Rightarrow> real" where
  "np_mean xs = sum_list xs / real (length xs)"

definition np_std :: "real list \<Rightarrow> real" where
  "np_std xs = sqrt (np_mean (map (\<lambda>x. \<bar>x - np_mean xs\<bar> ^ 2) xs))"

fun join :: "string \<Rightarrow> string list \<Rightarrow> string" where
  "join sep [] = []"
| "join sep [x] = x"
| "join sep (x # y # ys) = x @ sep @ join sep (y # ys)"

definition analyze_news_sentiment ::
  "int \<Rightarrow> string \<Rightarrow> (string \<Rightarrow> real option) \<Rightarrow> article list \<Rightarrow> SentimentData option" where
  "analyze_news_sentiment now tok score news_data =
     (if news_data = [] then None
      else
        (case collect_sentiments score (take 10 news_data) [] [] of
           (sentiments, text_samples) \<Rightarrow>
             if sentiments = [] then None
             else
               let avg_sentiment = np_mean sentiments;
                   conf = 1 - np_std sentiments
               in Some \<lparr>s_timestamp = now, s_token = tok, sentiment_score = avg_sentiment,
                        confidence = max (1 / 10) (min 1 conf), s_source = ''news'',
                        text_sample = join ''; '' (take 3 text_samples)\<rparr>))"

text \<open>
  The per-item scores of a list of articles, stated directly: the scores of the items
  whose cleaned text has at least ten characters and that the scorer could score. The
  loop above collects \<open>item_scores\<close> of the first ten articles.
\<close>

definition item_scores :: "(string \<Rightarrow> real option) \<Rightarrow> article list \<Rightarrow> real list" where
  "item_scores score items =
     List.map_filter
       (\<lambda>a. if length (strip (article_text a)) < 10 then None else score (article_text a))
       items"

text \<open>A scorer and a batch of eleven usable articles: ten score 0, the last scores 1.\<close>

definition example_score :: "string \<Rightarrow> real option" where
  "example_score text = (if text = ''ETH rally continues'' then Some 1 else Some 0)"

definition flat_article :: article where
  "flat_article = \<lparr>title = ''ETH'', description = ''trades sideways''\<rparr>"

definition rally_article :: article where
  "rally_article = \<lparr>title = ''ETH'', description = ''rally continues''\<rparr>"

definition eleven_articles :: "article list" where
  "eleven_articles = replicate 10 flat_article @ [rally_article]"

text \<open>The readings of the one-article batch and of the two-article batch built from the
  articles above.\<close>

definition calm_reading :: SentimentData where
  "calm_reading =
     \<lparr>s_timestamp = 0, s_token = ''ETH'', sentiment_score = 0, confidence = 1,
      s_source = ''news'', text_sample = ''ETH trades sideways''\<rparr>"

definition split_reading :: SentimentData where
  "split_reading =
     \<lparr>s_timestamp = 0, s_token = ''ETH'', sentiment_score = 1 / 2, confidence = 1 / 2,
      s_source = ''news'', text_sample = ''ETH trades sideways; ETH rally continues''\<rparr>"

section \<open>Example states\<close>

text \<open>A store holding one raw bullish signal of strength 0.5 for ETH, and no sentiment
  readings.\<close>

definition fusion_example :: analyzer where
  "fusion_example =
     \<lparr>price_data_cache = Map.empty, sentiment_cache = Map.empty,
      market_signals =
        [\<lparr>timestamp = 1000, token = ''ETH'', signal_type = ''bullish'', strength = 5 / 10,
          source = ''ma_bullish_alignment'', data = []\<rparr>]\<rparr>"

definition fusion_example_result :: MarketSignal where
  "fusion_example_result =
     \<lparr>timestamp = 2000, token = ''ETH'', signal_type = ''bullish'', strength = 5 / 10,
      source = ''composite'',
      data = [(''technical_score'', 5 / 10), (''sentiment_score'', 0),
              (''combined_score'', 5 / 10), (''signal_count'', 1)]\<rparr>"

text \<open>The composite signal of the second fusion cycle, five minutes after the first one
  ran on \<open>fusion_example\<close> at time \<open>2000\<close>.\<close>

definition second_cycle_result :: MarketSignal where
  "second_cycle_result =
     \<lparr>timestamp = 300002000, token = ''ETH'', signal_type = ''bullish'', strength = 1,
      source = ''composite'',
      data = [(''technical_score'', 1), (''sentiment_score'', 0),
              (''combined_score'', 1), (''signal_count'', 2)]\<rparr>"

text \<open>A raw signal recorded at time 0, and a store that still holds it 25 hours later
  next to a fresh one.\<close>

definition stale_signal :: MarketSignal where
  "stale_signal =
     \<lparr>timestamp = 0, token = ''ETH'', signal_type = ''bearish'', strength = 7 / 10,
      source = ''rsi_overbought'', data = [(''rsi'', 75)]\<rparr>"

definition fresh_signal :: MarketSignal where
  "fresh_signal =
     \<lparr>timestamp = hours 25 - 1000, token = ''ETH'', signal_type = ''bullish'',
      strength = 7 / 10, source = ''rsi_oversold'', data = [(''rsi'', 25)]\<rparr>"

definition stale_example :: analyzer where
  "stale_example =
     \<lparr>price_data_cache = Map.empty, sentiment_cache = Map.empty,
      market_signals = [stale_signal, fresh_signal]\<rparr>"

text \<open>An analyzer whose price cache holds a 24h volume of 100 for ETH, and a fetched
  price record reporting a volume of 300 with an unchanged price.\<close>

definition spike_prev_data :: price_data where
  "spike_prev_data =
     \<lparr>p_token = ''ETH'', price = 2000, change_24h = 0, volume_24h = 100,
      p_timestamp = 1000, p_source = ''coingecko''\<rparr>"

definition spike_price_data :: price_data where
  "spike_price_data =
     \<lparr>p_token = ''ETH'', price = 2000, change_24h = 0, volume_24h = 300,
      p_timestamp = 2000, p_source = ''coingecko''\<rparr>"

definition spike_example :: analyzer where
  "spike_example =
     \<lparr>price_data_cache = [''ETH'' \<mapsto> spike_prev_data], sentiment_cache = Map.empty,
      market_signals = []\<rparr>"



section \<open>Indicator engine: data frames and the statements of a step\<close>

text \<open>
  A data frame is the list of its named columns, in column order, over the default row
  index. A column holds floats or booleans. The numerical routines of the TA library,
  the remaining pandas aggregations and the regression routine are outside the
  repository: they are the fields of the parameter \<open>lib\<close>, each of which returns its
  arrays or raises. A routine is named by its function name and called with its numeric
  parameters and its input arrays.
\<close>

datatype column = Floats floats | Bools "bool list"

type_synonym frame = "(string \<times> column) list"

datatype error = KeyError | IndexError | LibraryError


text \<open>
  A statement of a \<^verbatim>\<open>try\<close> block runs on the frame, which it may change in place, and
  returns a value or raises; the frame as changed so far survives a raise.
\<close>

type_synonym 'a stmt = "frame \<Rightarrow> (error + 'a) \<times> frame"



fun seq :: "unit stmt list \<Rightarrow> unit stmt" where
  "seq [] df = (Inr (), df)"
| "seq (s # ss) df = (case s df of
                        (Inl e, df') \<Rightarrow> (Inl e, df')
                      | (Inr u, df') \<Rightarrow> seq ss df')"



text \<open>\<^verbatim>\<open>df[name] = value\<close>: an existing column is replaced where it stands, a new one is
  appended. The arrays assigned have the length of the frame.\<close>

definition set_col :: "string \<Rightarrow> column \<Rightarrow> frame \<Rightarrow> frame" where
  "set_col name v df =
     (if name \<in> set (map fst df)
      then map (\<lambda>kc. if fst kc = name then (name, v) else kc) df
      else df @ [(name, v)])"

definition assign :: "string \<Rightarrow> column \<Rightarrow> unit stmt" where
  "assign name v df = (Inr (), set_col name v df)"








section \<open>Indicator engine: the steps\<close>

































section \<open>Composite fusion: classification\<close>

text \<open>
  Claim C4. Whenever the store holds a signal of the asset within the trailing hour, the
  fuser emits a composite signal; its combined score is the net technical strength of the
  recent signals plus the sentiment component, and the signal is classified by it: above
  0.3 it is bullish with strength \<open>min 1 combined\<close>, below -0.3 it is bearish with
  strength \<open>min 1 |combined|\<close>, otherwise it is neutral with strength exactly 0.5. In
  particular, a net technical strength of 0.5 with no news and no social reading in the
  cache gives a bullish signal of strength exactly 0.5.
\<close>

theorem composite_classification:
  assumes "recent_signals now tok st \<noteq> []"
  shows "\<exists>c combined.
     generate_composite_signal now tok st = Some c \<and>
     combined = (bullish_strength (recent_signals now tok st)
                 - bearish_strength (recent_signals now tok st)) + sentiment_component tok st \<and>
     data_value c ''combined_score'' = Some combined \<and>
     data_value c ''technical_score'' =
       Some (bullish_strength (recent_signals now tok st)
             - bearish_strength (recent_signals now tok st)) \<and>
     source c = ''composite'' \<and> token c = tok \<and>
     (combined > 3 / 10 \<longrightarrow> signal_type c = ''bullish'' \<and> strength c = min 1 combined) \<and>
     (combined < - (3 / 10) \<longrightarrow> signal_type c = ''bearish'' \<and> strength c = min 1 \<bar>combined\<bar>) \<and>
     (\<not> combined > 3 / 10 \<and> \<not> combined < - (3 / 10) \<longrightarrow>
         signal_type c = ''neutral'' \<and> strength c = 5 / 10) \<and>
     (bullish_strength (recent_signals now tok st)
        - bearish_strength (recent_signals now tok st) = 5 / 10 \<and>
      sentiment_cache st (tok @ ''_news'') = None \<and>
      sentiment_cache st (tok @ ''_social'') = None \<longrightarrow>
         signal_type c = ''bullish'' \<and> strength c = 5 / 10)"
  using assms
  by (auto simp: generate_composite_signal_def Let_def data_value_def sentiment_component_def)

theorem composite_classification_witness:
  "recent_signals 2000 ''ETH'' fusion_example \<noteq> [] \<and>
   bullish_strength (recent_signals 2000 ''ETH'' fusion_example)
     - bearish_strength (recent_signals 2000 ''ETH'' fusion_example) = 5 / 10 \<and>
   sentiment_cache fusion_example (''ETH'' @ ''_news'') = None \<and>
   sentiment_cache fusion_example (''ETH'' @ ''_social'') = None \<and>
   generate_composite_signal 2000 ''ETH'' fusion_example = Some fusion_example_result \<and>
   signal_type fusion_example_result = ''bullish'' \<and>
   strength fusion_example_result = 5 / 10"
proof -
  have r: "recent_signals 2000 ''ETH'' fusion_example \<noteq> []"
    by (simp add: recent_signals_def fusion_example_def hours_def)
  have t: "bullish_strength (recent_signals 2000 ''ETH'' fusion_example)
     - bearish_strength (recent_signals 2000 ''ETH'' fusion_example) = 5 / 10"
    by (simp add: recent_signals_def fusion_example_def hours_def bullish_strength_def
          bearish_strength_def)
  have n: "sentiment_cache fusion_example (''ETH'' @ ''_news'') = None"
          "sentiment_cache fusion_example (''ETH'' @ ''_social'') = None"
    by (simp_all add: fusion_example_def)
  have h: "generate_composite_signal 2000 ''ETH'' fusion_example = Some fusion_example_result"
    by (simp add: generate_composite_signal_def fusion_example_def fusion_example_result_def
          recent_signals_def hours_def bullish_strength_def bearish_strength_def
          sentiment_component_def Let_def)
  from composite_classification [OF r] t n h
  have "signal_type fusion_example_result = ''bullish'' \<and>
        strength fusion_example_result = 5 / 10"
    by auto
  with r t n h show ?thesis by blast
qed

section \<open>Composite fusion: nothing to fuse\<close>

text \<open>
  Claim C5. If the store holds no signal for the asset with a timestamp inside the
  trailing hour, the fuser returns nothing for that asset, and the fusion step of
  the generator loop leaves the analyzer (hence the store) as it was.
\<close>

theorem no_recent_signals_no_composite:
  assumes "filter (\<lambda>s. token s = tok \<and> timestamp s > now - hours 1) (market_signals st) = []"
  shows "generate_composite_signal now tok st = None \<and>
         market_signal_generator_token now tok st = st"
  using assms
  by (simp add: generate_composite_signal_def market_signal_generator_token_def
        recent_signals_def)

theorem no_recent_signals_no_composite_witness:
  "filter (\<lambda>s. token s = ''BTC'' \<and> timestamp s > 2000 - hours 1)
     (market_signals fusion_example) = [] \<and>
   generate_composite_signal 2000 ''BTC'' fusion_example = None \<and>
   market_signal_generator_token 2000 ''BTC'' fusion_example = fusion_example"
proof -
  have h: "filter (\<lambda>s. token s = ''BTC'' \<and> timestamp s > 2000 - hours 1)
             (market_signals fusion_example) = []"
    by (simp add: fusion_example_def)
  from no_recent_signals_no_composite [OF h] h show ?thesis by blast
qed

section \<open>Composite fusion: which signals are summed\<close>

text \<open>
  The first fusion cycle on \<open>fusion_example\<close> appends its composite signal to the
  store and leaves the sentiment cache empty; the second cycle, five minutes later, finds
  the raw signal and that composite within the hour.
\<close>

lemma first_cycle_store:
  "market_signals (market_signal_generator_token 2000 ''ETH'' fusion_example)
     = market_signals fusion_example @ [fusion_example_result]"
  by (simp add: market_signal_generator_token_def generate_composite_signal_def
        fusion_example_def fusion_example_result_def recent_signals_def hours_def
        bullish_strength_def bearish_strength_def sentiment_component_def Let_def)

lemma first_cycle_caches:
  "sentiment_cache (market_signal_generator_token 2000 ''ETH'' fusion_example) k = None"
  by (simp add: market_signal_generator_token_def generate_composite_signal_def
        fusion_example_def recent_signals_def hours_def Let_def)

lemma first_cycle_signals:
  "market_signals (market_signal_generator_token 2000 ''ETH'' fusion_example)
     = [\<lparr>timestamp = 1000, token = ''ETH'', signal_type = ''bullish'', strength = 5 / 10,
         source = ''ma_bullish_alignment'', data = []\<rparr>, fusion_example_result]"
  unfolding first_cycle_store by (simp add: fusion_example_def)

lemma second_cycle:
  "generate_composite_signal 300002000 ''ETH''
     (market_signal_generator_token 2000 ''ETH'' fusion_example) = Some second_cycle_result"
  by (simp add: generate_composite_signal_def recent_signals_def sentiment_component_def
        first_cycle_signals first_cycle_caches fusion_example_result_def
        second_cycle_result_def hours_def bullish_strength_def bearish_strength_def Let_def)

text \<open>
  Claim C1, as stated, fails: the selection of recent signals tests the token and the
  timestamp only, so the composite signal written back by the previous fusion cycle is
  summed with the raw ones. After one fusion cycle on \<open>fusion_example\<close> the second
  cycle records a technical score of 1, while the raw signals alone give 0.5.
\<close>

theorem net_technical_raw_only_counterexample:
  "market_signals (market_signal_generator_token 2000 ''ETH'' fusion_example)
     = market_signals fusion_example @ [fusion_example_result] \<and>
   generate_composite_signal 300002000 ''ETH''
     (market_signal_generator_token 2000 ''ETH'' fusion_example) = Some second_cycle_result \<and>
   data_value second_cycle_result ''technical_score'' = Some 1 \<and>
   spec_raw_net_technical 300002000 ''ETH''
     (market_signal_generator_token 2000 ''ETH'' fusion_example) = 1 / 2"
proof -
  have d: "data_value second_cycle_result ''technical_score'' = Some 1"
    by (simp add: data_value_def second_cycle_result_def)
  have r: "spec_raw_net_technical 300002000 ''ETH''
     (market_signal_generator_token 2000 ''ETH'' fusion_example) = 1 / 2"
    by (simp add: spec_raw_net_technical_def recent_signals_def first_cycle_signals
          fusion_example_result_def hours_def bullish_strength_def bearish_strength_def
          Let_def)
  from first_cycle_store second_cycle d r show ?thesis by blast
qed

text \<open>
  Claim C1, amended. The technical score of a composite signal is the sum of the strengths
  of all bullish signals of the asset timestamped within the last hour minus the sum of the
  strengths of all bearish ones, whatever their source tag.
\<close>

theorem net_technical_all_recent:
  assumes "generate_composite_signal now tok st = Some c"
  shows "data_value c ''technical_score'' =
     Some (sum_list (map strength
             (filter (\<lambda>s. token s = tok \<and> timestamp s > now - hours 1 \<and>
                          signal_type s = ''bullish'') (market_signals st)))
           - sum_list (map strength
             (filter (\<lambda>s. token s = tok \<and> timestamp s > now - hours 1 \<and>
                          signal_type s = ''bearish'') (market_signals st))))"
proof -
  have f: "\<And>P Q xs. filter P (filter Q xs) = filter (\<lambda>x. Q x \<and> P x) xs"
    by (simp add: conj_commute)
  show ?thesis using assms
    by (auto simp: generate_composite_signal_def Let_def data_value_def recent_signals_def
          bullish_strength_def bearish_strength_def f conj_assoc split: if_splits)
qed

theorem net_technical_all_recent_witness:
  "generate_composite_signal 300002000 ''ETH''
     (market_signal_generator_token 2000 ''ETH'' fusion_example) = Some second_cycle_result \<and>
   data_value second_cycle_result ''technical_score'' = Some 1"
proof -
  have "data_value second_cycle_result ''technical_score'' =
     Some (sum_list (map strength
             (filter (\<lambda>s. token s = ''ETH'' \<and> timestamp s > 300002000 - hours 1 \<and>
                          signal_type s = ''bullish'')
                (market_signals (market_signal_generator_token 2000 ''ETH'' fusion_example))))
           - sum_list (map strength
             (filter (\<lambda>s. token s = ''ETH'' \<and> timestamp s > 300002000 - hours 1 \<and>
                          signal_type s = ''bearish'')
                (market_signals (market_signal_generator_token 2000 ''ETH'' fusion_example)))))"
    by (rule net_technical_all_recent [OF second_cycle])
  then have "data_value second_cycle_result ''technical_score'' = Some 1"
    by (simp add: first_cycle_signals fusion_example_result_def hours_def)
  with second_cycle show ?thesis by blast
qed

section \<open>Store pruning\<close>

text \<open>
  Claim C2, as stated, fails: only the price-movement analysis filters the store. In
  \<open>stale_example\<close> a raw signal recorded 25 hours ago is still in the store after a
  composite insert and after a technical-signal insert.
\<close>

theorem prune_after_every_insert_counterexample:
  "stale_signal \<in> set (market_signals
      (market_signal_generator_token (hours 25) ''ETH'' stale_example)) \<and>
   stale_signal \<in> set (market_signals
      (technical_analysis_processor_token (hours 25) ''ETH''
         (Some (replicate 51 [''rsi'' \<mapsto> Some 20])) stale_example)) \<and>
   market_signals (technical_analysis_processor_token (hours 25) ''ETH''
         (Some (replicate 51 [''rsi'' \<mapsto> Some 20])) stale_example)
     \<noteq> market_signals stale_example \<and>
   source stale_signal \<noteq> ''composite'' \<and>
   timestamp stale_signal < hours 25 - hours 24"
  by (simp add: market_signal_generator_token_def generate_composite_signal_def
        technical_analysis_processor_token_def generate_technical_signals_def
        rsi_signals_def macd_signals_def ma_signals_def row_get_def
        nan_lt_def nan_gt_def nan_le_def nan_ge_def
        stale_example_def stale_signal_def fresh_signal_def recent_signals_def
        hours_def Let_def)

text \<open>
  Claim C2, amended. After a price-movement insert every signal left in the store, raw or
  composite, has a timestamp later than now minus 24 hours. The technical-signal insert
  and the composite insert only append to the store.
\<close>

theorem prune_on_price_movement_insert:
  "(\<forall>s \<in> set (market_signals (analyze_price_movement now tok pd st)).
      timestamp s > now - hours 24) \<and>
   (\<forall>s \<in> set (market_signals (price_data_collector_token now tok (Some pd) st)).
      timestamp s > now - hours 24) \<and>
   (\<exists>new. market_signals (technical_analysis_processor_token now tok history st)
            = market_signals st @ new) \<and>
   (\<exists>new. market_signals (market_signal_generator_token now tok st)
            = market_signals st @ new)"
  by (auto simp: analyze_price_movement_def price_data_collector_token_def Let_def
        technical_analysis_processor_token_def market_signal_generator_token_def
        split: option.splits)

theorem prune_on_price_movement_insert_witness:
  "market_signals (analyze_price_movement (hours 25) ''ETH'' spike_price_data stale_example)
     = [fresh_signal] \<and>
   timestamp fresh_signal > hours 25 - hours 24"
proof -
  have m: "market_signals
             (analyze_price_movement (hours 25) ''ETH'' spike_price_data stale_example)
           = [fresh_signal]"
    by (simp add: analyze_price_movement_def price_movement_signals_def
          volume_spike_signals_def spike_price_data_def stale_example_def stale_signal_def
          fresh_signal_def hours_def Let_def)
  from prune_on_price_movement_insert [of "hours 25" "''ETH''" spike_price_data stale_example]
  have "\<forall>s \<in> set (market_signals
           (analyze_price_movement (hours 25) ''ETH'' spike_price_data stale_example)).
          timestamp s > hours 25 - hours 24"
    by blast
  with m show ?thesis by simp
qed

section \<open>Volume spike\<close>

text \<open>
  The collector writes the fetched record into the price cache before it calls the
  analysis, so the analysis compares the fetched volume with itself: the store after a
  collector step is the old store plus the strong-move signal, filtered, and never holds
  a new volume-spike signal.
\<close>

lemma collector_step_store:
  "price_data_collector_token now tok (Some pd) st =
     st\<lparr>price_data_cache := (price_data_cache st)(tok \<mapsto> pd),
        market_signals := filter (\<lambda>s. timestamp s > now - hours 24)
                            (market_signals st @ price_movement_signals now tok pd)\<rparr>"
  by (simp add: price_data_collector_token_def analyze_price_movement_def
        volume_spike_signals_def Let_def)

text \<open>
  Claim C3. The cache holds a positive volume of 100 for ETH and the collector fetches a
  volume of 300, more than twice as much. The collector step emits no signal at all,
  although the analysis run against the cache of the previous cycle would emit the
  volume-spike signal.
\<close>

theorem volume_spike_not_emitted:
  "price_data_cache spike_example ''ETH'' = Some spike_prev_data \<and>
   0 < volume_24h spike_prev_data \<and>
   volume_24h spike_price_data > 2 * volume_24h spike_prev_data \<and>
   market_signals
     (price_data_collector_token 2000 ''ETH'' (Some spike_price_data) spike_example) = [] \<and>
   map source
     (market_signals (analyze_price_movement 2000 ''ETH'' spike_price_data spike_example))
     = [''volume_spike'']"
  by (simp add: price_data_collector_token_def analyze_price_movement_def
        volume_spike_signals_def price_movement_signals_def Let_def spike_example_def
        spike_prev_data_def spike_price_data_def hours_def)

section \<open>Facts about shifted and rolled arrays\<close>

lemma nan_cmp_None [simp]:
  "nan_le None b = False" "nan_ge None b = False"
  "nan_lt None b = False" "nan_gt None b = False"
  by (simp_all add: nan_le_def nan_ge_def nan_lt_def nan_gt_def split: option.splits)



lemma length_rolling: "length (rolling w agg xs) = length xs"
  by (simp add: rolling_def)

section \<open>MACD crossover flags\<close>



section \<open>Chaikin Money Flow on flat bars\<close>

text \<open>
  Claim C9. The computation returns one cell for every bar, whatever the input, and a bar
  with \<^verbatim>\<open>high == low\<close> has a money-flow volume of exactly 0, which is what enters the
  rolling sum; the result on each bar is the quotient of the two rolling sums, undefined
  (not an error) where the volume sum is zero or the window is incomplete.
\<close>

theorem flat_bar_contributes_zero:
  assumes "length low = length high" and "length close = length high"
      and "length volume = length high" and "i < length high"
      and "nan_eq (high ! i) (low ! i)"
  shows "money_flow_volume high low close volume ! i = Some 0 \<and>
         length (money_flow_volume high low close volume) = length high \<and>
         length (chaikin_money_flow high low close volume period) = length high \<and>
         chaikin_money_flow high low close volume period ! i =
           np_div (rolling_sum period (money_flow_volume high low close volume) ! i)
                  (rolling_sum period volume ! i)"
  using assms
  by (simp add: money_flow_volume_def chaikin_money_flow_def np_where_def arr_eq_def
        arr_mul_def arr_div_def arr_sub_def rolling_sum_def length_rolling Let_def)

theorem flat_bar_contributes_zero_witness:
  "nan_eq ([Some 2, Some 3, Some 4] ! 1) ([Some 1, Some 3, Some 2] ! 1) \<and>
   money_flow_volume [Some 2, Some 3, Some 4] [Some 1, Some 3, Some 2]
       [Some 2, Some 3, Some 3] [Some 10, Some 10, Some 10] ! 1 = Some 0 \<and>
   chaikin_money_flow [Some 2, Some 3, Some 4] [Some 1, Some 3, Some 2]
       [Some 2, Some 3, Some 3] [Some 10, Some 10, Some 10] 2 = [None, Some (1 / 2), Some 0]"
proof -
  have e: "nan_eq ([Some 2, Some 3, Some 4] ! 1) ([Some 1, Some 3, Some (2::real)] ! 1)"
    by (simp add: nan_eq_def)
  have "money_flow_volume [Some 2, Some 3, Some 4] [Some 1, Some 3, Some 2]
          [Some 2, Some 3, Some 3] [Some 10, Some 10, Some 10] ! 1 = Some 0"
    using flat_bar_contributes_zero [of "[Some 1, Some 3, Some 2]" "[Some 2, Some 3, Some 4]"
        "[Some 2, Some 3, Some 3]" "[Some 10, Some 10, Some 10]" 1 2] e
    by simp
  moreover have "chaikin_money_flow [Some 2, Some 3, Some 4] [Some 1, Some 3, Some 2]
       [Some 2, Some 3, Some 3] [Some 10, Some 10, Some 10] 2 = [None, Some (1 / 2), Some 0]"
    by (simp add: chaikin_money_flow_def money_flow_volume_def rolling_sum_def rolling_def
          np_where_def arr_eq_def arr_mul_def arr_div_def arr_sub_def nan_eq_def np_sub_def
          np_mul_def np_div_def Let_def upt_rec numeral_eq_Suc)
  ultimately show ?thesis using e by blast
qed

section \<open>Pivot points on the first row\<close>

text \<open>
  The rolled array starts with the last cell of the input, so the first row of every pivot
  level is computed from the last bar of the series.
\<close>

lemma np_roll1_first: "xs \<noteq> [] \<Longrightarrow> np_roll1 xs ! 0 = last xs"
  by (simp add: np_roll1_def)

text \<open>
  Claim C6. For the two-bar series with highs 10, 20, lows 5, 10 and closes 8, 15, the
  pivot of row 0, which has no previous bar, is not null: it is 15, the mean of the high,
  low and close of the last bar.
\<close>

theorem pivot_first_row_from_last_bar:
  "map_of (calculate_pivot_points [Some 10, Some 20] [Some 5, Some 10] [Some 8, Some 15])
      ''pivot'' = Some [Some 15, Some (23 / 3)] \<and>
   np_div (np_add (np_add (Some 20) (Some 10)) (Some 15)) (Some 3) = Some 15"
  by (simp add: calculate_pivot_points_def np_roll1_def arr_div_scalar_def arr_add_def
        arr_sub_def arr_scale_def np_add_def np_div_def Let_def)

section \<open>News sentiment: score and confidence\<close>

text \<open>The loop collects the item scores of the articles it is given, in order.\<close>

lemma collect_sentiments_fst:
  "fst (collect_sentiments score items acc samples) = acc @ item_scores score items"
  by (induction items arbitrary: acc samples)
     (auto simp: item_scores_def List.map_filter_simps Let_def split: option.splits)

lemma confidence_antitone:
  "s \<le> s' \<Longrightarrow> max (1 / 10) (min 1 (1 - s')) \<le> max (1 / 10) (min (1::real) (1 - s))"
  by (auto simp: max_def min_def)

lemma sqrt_quarter: "sqrt (1 / 4) = 1 / 2"
  by (simp add: real_sqrt_divide)

text \<open>
  Claim C8, as stated, fails for a batch of more than ten usable items: only the first ten
  articles are analysed. For the eleven usable articles of \<open>eleven_articles\<close> the mean
  of the per-item scores is 1/11, and the reading's score is 0.
\<close>

theorem news_sentiment_counterexample:
  "length eleven_articles = 11 \<and>
   item_scores example_score eleven_articles = [0, 0, 0, 0, 0, 0, 0, 0, 0, 0, 1] \<and>
   np_mean (item_scores example_score eleven_articles) = 1 / 11 \<and>
   map_option sentiment_score
     (analyze_news_sentiment 0 ''ETH'' example_score eleven_articles) = Some 0"
  by (simp add: eleven_articles_def flat_article_def rally_article_def example_score_def
        item_scores_def List.map_filter_simps article_text_def strip_def is_space_def
        analyze_news_sentiment_def np_mean_def Let_def numeral_eq_Suc)

text \<open>The reading in closed form: none when the first ten articles hold no usable item,
  else the mean and the clamped confidence of their scores.\<close>

lemma analyze_news_sentiment_eq:
  "analyze_news_sentiment now tok score news =
     (if item_scores score (take 10 news) = [] then None
      else Some \<lparr>s_timestamp = now, s_token = tok,
                  sentiment_score = np_mean (item_scores score (take 10 news)),
                  confidence = max (1 / 10)
                    (min 1 (1 - np_std (item_scores score (take 10 news)))),
                  s_source = ''news'',
                  text_sample = join ''; ''
                    (take 3 (snd (collect_sentiments score (take 10 news) [] [])))\<rparr>)"
proof -
  obtain ss ts where c: "collect_sentiments score (take 10 news) [] [] = (ss, ts)"
    by (cases "collect_sentiments score (take 10 news) [] []") auto
  have s: "ss = item_scores score (take 10 news)"
    using collect_sentiments_fst [of score "take 10 news" "[]" "[]"] c by simp
  have e: "news = [] \<Longrightarrow> item_scores score (take 10 news) = []"
    by (simp add: item_scores_def List.map_filter_simps)
  show ?thesis
    using c s e by (auto simp: analyze_news_sentiment_def Let_def)
qed

text \<open>
  Claim C8, amended. For every batch whose first ten articles hold at least one usable
  item a reading is produced; its score is the mean of the scores of the usable items
  among the first ten articles, and its confidence is \<open>max 0.1 (min 1 (1 - stdev))\<close> of
  these scores. Hence of two such batches the one whose scores have the larger standard
  deviation yields the smaller or equal confidence.
\<close>

theorem news_sentiment_reading:
  assumes "item_scores score (take 10 news) \<noteq> []"
  shows "\<exists>r. analyze_news_sentiment now tok score news = Some r \<and>
         sentiment_score r = np_mean (item_scores score (take 10 news)) \<and>
         confidence r = max (1 / 10) (min 1 (1 - np_std (item_scores score (take 10 news)))) \<and>
         (item_scores score' (take 10 news') \<noteq> [] \<and>
          np_std (item_scores score (take 10 news))
            \<le> np_std (item_scores score' (take 10 news'))
          \<longrightarrow> (\<exists>r'. analyze_news_sentiment now' tok' score' news' = Some r' \<and>
                    confidence r' \<le> confidence r))"
proof -
  have ex: "\<And>n t sc nw. item_scores sc (take 10 nw) \<noteq> [] \<Longrightarrow>
      \<exists>q. analyze_news_sentiment n t sc nw = Some q \<and>
          sentiment_score q = np_mean (item_scores sc (take 10 nw)) \<and>
          confidence q = max (1 / 10) (min 1 (1 - np_std (item_scores sc (take 10 nw))))"
    by (simp add: analyze_news_sentiment_eq)
  from ex [OF assms, of now tok] obtain r where
    r: "analyze_news_sentiment now tok score news = Some r"
       "sentiment_score r = np_mean (item_scores score (take 10 news))"
       "confidence r = max (1 / 10) (min 1 (1 - np_std (item_scores score (take 10 news))))"
    by blast
  have mono: "item_scores score' (take 10 news') \<noteq> [] \<and>
          np_std (item_scores score (take 10 news))
            \<le> np_std (item_scores score' (take 10 news'))
          \<longrightarrow> (\<exists>r'. analyze_news_sentiment now' tok' score' news' = Some r' \<and>
                    confidence r' \<le> confidence r)"
  proof
    assume a: "item_scores score' (take 10 news') \<noteq> [] \<and>
          np_std (item_scores score (take 10 news))
            \<le> np_std (item_scores score' (take 10 news'))"
    from ex [of score' news' now' tok'] a obtain r' where
      r': "analyze_news_sentiment now' tok' score' news' = Some r'"
          "confidence r' =
             max (1 / 10) (min 1 (1 - np_std (item_scores score' (take 10 news'))))"
      by blast
    from a have "confidence r' \<le> confidence r"
      unfolding r'(2) r(3) by (intro confidence_antitone) simp
    with r'(1) show "\<exists>r'. analyze_news_sentiment now' tok' score' news' = Some r' \<and>
                    confidence r' \<le> confidence r"
      by blast
  qed
  from r mono show ?thesis by blast
qed

theorem news_sentiment_reading_witness:
  "item_scores example_score (take 10 [flat_article]) \<noteq> [] \<and>
   item_scores example_score (take 10 [flat_article, rally_article]) \<noteq> [] \<and>
   analyze_news_sentiment 0 ''ETH'' example_score [flat_article] = Some calm_reading \<and>
   analyze_news_sentiment 0 ''ETH'' example_score [flat_article, rally_article]
     = Some split_reading \<and>
   sentiment_score split_reading = 1 / 2 \<and>
   confidence split_reading \<le> confidence calm_reading"
proof -
  have s1: "item_scores example_score (take 10 [flat_article]) = [0]"
    by (simp add: flat_article_def example_score_def item_scores_def List.map_filter_simps
          article_text_def strip_def is_space_def)
  have s2: "item_scores example_score (take 10 [flat_article, rally_article]) = [0, 1]"
    by (simp add: flat_article_def rally_article_def example_score_def item_scores_def
          List.map_filter_simps article_text_def strip_def is_space_def)
  have d1: "np_std [0] = 0" by (simp add: np_std_def np_mean_def)
  have d2: "np_std [0, 1] = 1 / 2"
    by (simp add: np_std_def np_mean_def power2_eq_square sqrt_quarter)
  have h1: "analyze_news_sentiment 0 ''ETH'' example_score [flat_article] = Some calm_reading"
    by (simp add: analyze_news_sentiment_def flat_article_def example_score_def
          article_text_def strip_def is_space_def calm_reading_def d1 Let_def)
       (simp add: np_mean_def)
  have h2: "analyze_news_sentiment 0 ''ETH'' example_score [flat_article, rally_article]
              = Some split_reading"
    by (simp add: analyze_news_sentiment_def flat_article_def rally_article_def
          example_score_def article_text_def strip_def is_space_def split_reading_def d2
          Let_def)
       (simp add: np_mean_def)
  have n1: "item_scores example_score (take 10 [flat_article]) \<noteq> []" using s1 by simp
  have n2: "item_scores example_score (take 10 [flat_article, rally_article]) \<noteq> []"
    using s2 by simp
  from news_sentiment_reading [OF n1, where score' = example_score
         and news' = "[flat_article, rally_article]" and now = 0 and tok = "''ETH''"
         and now' = 0 and tok' = "''ETH''"] h1 h2 n2 s1 s2 d1 d2
  have "confidence split_reading \<le> confidence calm_reading" by auto
  with n1 n2 h1 h2 show ?thesis by (simp add: split_reading_def)
qed

section \<open>Indicator engine: the all-indicators pipeline\<close>




















lemma seq_assign:
  "seq (assign name v # ss) df = seq ss (set_col name v df)"
  by (simp add: assign_def)


































end
